theory Spec2Isabelle
  imports Main
begin

section \<open>The play-sound script: data and environment\<close>

text \<open>
  The script \<^verbatim>\<open>play-sound.py\<close> does nothing but talk to its host: it probes files, spawns
  players, imports and calls \<^verbatim>\<open>winsound\<close>, and prints. The model threads the list of the
  actions performed so far (the trace, oldest first) through every function, and asks an
  environment what each action answers. The environment sees the whole trace, so an action
  may answer differently the second time (the second \<^verbatim>\<open>import winsound\<close>, for instance).

  Exceptions are values. The type \<open>exn\<close> stands for the instances of Python's class
  \<^verbatim>\<open>Exception\<close> that the called primitives raise synchronously; the handlers of the script
  tell apart \<^verbatim>\<open>FileNotFoundError\<close> and \<^verbatim>\<open>ImportError\<close> (each with its subclasses), every other
  class is \<open>OtherException\<close> with its name. What is not an instance of \<^verbatim>\<open>Exception\<close>
  (\<^verbatim>\<open>KeyboardInterrupt\<close>, \<^verbatim>\<open>SystemExit\<close>), and so passes the handler \<^verbatim>\<open>except Exception\<close> of
  \<^verbatim>\<open>main\<close>, is not part of the model: every statement below is about instances of
  \<^verbatim>\<open>Exception\<close> only.
\<close>

datatype exn = FileNotFoundError | ImportError | KeyError | OtherException string

datatype action =
    Exists string             \<comment> \<open>\<^verbatim>\<open>os.path.exists(path)\<close>\<close>
  | Run "string list"         \<comment> \<open>\<^verbatim>\<open>subprocess.run(args, check=False, stdout=DEVNULL, stderr=DEVNULL)\<close>\<close>
  | ImportWinsound            \<comment> \<open>\<^verbatim>\<open>import winsound\<close>\<close>
  | Beep int int              \<comment> \<open>\<^verbatim>\<open>winsound.Beep(frequency, duration)\<close>\<close>
  | MessageBeep               \<comment> \<open>\<^verbatim>\<open>winsound.MessageBeep()\<close>\<close>
  | PrintFlush string         \<comment> \<open>\<^verbatim>\<open>print(s, end='', flush=True)\<close>\<close>
  | ExitFlush                 \<comment> \<open>the interpreter's flush of \<^verbatim>\<open>sys.stdout\<close> when it exits\<close>

type_synonym trace = "action list"

record env =
  path_exists :: "trace \<Rightarrow> string \<Rightarrow> bool"
  subprocess_run :: "trace \<Rightarrow> string list \<Rightarrow> exn + int"
  call :: "trace \<Rightarrow> action \<Rightarrow> exn + unit"

text \<open>
  \<open>subprocess_run\<close> answers the return code of the finished process, or the exception
  raised while spawning it; with \<^verbatim>\<open>check=False\<close> the return code is dropped.
\<close>

definition probe :: "env \<Rightarrow> string \<Rightarrow> trace \<Rightarrow> bool \<times> trace" where
  "probe E p tr = (path_exists E tr p, tr @ [Exists p])"

definition run :: "env \<Rightarrow> string list \<Rightarrow> trace \<Rightarrow> (exn + unit) \<times> trace" where
  "run E args tr =
     (case subprocess_run E tr args of Inl e \<Rightarrow> Inl e | Inr rc \<Rightarrow> Inr (), tr @ [Run args])"

definition perform :: "env \<Rightarrow> action \<Rightarrow> trace \<Rightarrow> (exn + unit) \<times> trace" where
  "perform E a tr = (call E tr a, tr @ [a])"

definition bell :: string where
  "bell = [CHR 0x07]"

definition dict_getitem :: "(string \<times> 'v) list \<Rightarrow> string \<Rightarrow> exn + 'v" where
  "dict_getitem d k = (case map_of d k of None \<Rightarrow> Inl KeyError | Some v \<Rightarrow> Inr v)"

definition dict_get :: "(string \<times> 'v) list \<Rightarrow> string \<Rightarrow> 'v \<Rightarrow> 'v" where
  "dict_get d k dflt = (case map_of d k of None \<Rightarrow> dflt | Some v \<Rightarrow> v)"

definition os_path_join :: "string \<Rightarrow> string \<Rightarrow> string" where
  "os_path_join a b =
     (if b \<noteq> [] \<and> hd b = CHR ''/'' then b
      else if a = [] \<or> last a = CHR ''/'' then a @ b
      else a @ ''/'' @ b)"

section \<open>macOS\<close>

definition macos_sound_map :: "(string \<times> string) list" where
  "macos_sound_map =
     [(''success'', ''/System/Library/Sounds/Hero.aiff''),
      (''prompt'', ''/System/Library/Sounds/Blow.aiff'')]"

definition play_sound_macos :: "env \<Rightarrow> string \<Rightarrow> trace \<Rightarrow> (exn + unit) \<times> trace" where
  "play_sound_macos E sound_type tr =
     (case dict_getitem macos_sound_map ''prompt'' of
        Inl e \<Rightarrow> (Inl e, tr)
      | Inr dflt \<Rightarrow>
          (let sound_file = dict_get macos_sound_map sound_type dflt;
               (r, tr1) = run E [''afplay'', sound_file] tr
           in if r = Inl FileNotFoundError
              then run E [''osascript'', ''-e'', ''beep 1''] tr1
              else (r, tr1)))"

section \<open>Linux\<close>

definition sound_paths :: "string list" where
  "sound_paths =
     [''/usr/share/sounds/freedesktop/stereo/'',
      ''/usr/share/sounds/ubuntu/stereo/'',
      ''/usr/share/sounds/gnome/default/alerts/'']"

definition linux_sound_map :: "(string \<times> string list) list" where
  "linux_sound_map =
     [(''success'', [''complete.oga'', ''message.oga'', ''glass.oga'']),
      (''prompt'', [''dialog-warning.oga'', ''message-new-instant.oga'', ''bell.oga''])]"

text \<open>
  How a loop of \<^verbatim>\<open>play_sound_linux\<close>, or one pass through its body, ends: control falls out
  of its end (\<open>Exhausted\<close>, so that whatever follows goes on), the function returns, or an
  exception is raised.
\<close>

datatype flow = Exhausted | Returned | Raised exn

text \<open>The body of the inner loop for one existing file: \<^verbatim>\<open>paplay\<close>, then \<^verbatim>\<open>aplay\<close>.\<close>

definition play_file :: "env \<Rightarrow> string \<Rightarrow> trace \<Rightarrow> flow \<times> trace" where
  "play_file E full_path tr =
     (let (r, tr1) = run E [''paplay'', full_path] tr
      in case r of
           Inr u \<Rightarrow> (Returned, tr1)
         | Inl e \<Rightarrow>
             if e = FileNotFoundError then
               (let (r2, tr2) = run E [''aplay'', ''-q'', full_path] tr1
                in case r2 of
                     Inr u \<Rightarrow> (Returned, tr2)
                   | Inl e2 \<Rightarrow> if e2 = FileNotFoundError then (Exhausted, tr2) else (Raised e2, tr2))
             else (Raised e, tr1))"

text \<open>\<^verbatim>\<open>for sound_file in sounds\<close>, for one \<open>base_path\<close>.\<close>

fun sound_file_loop :: "env \<Rightarrow> string \<Rightarrow> string list \<Rightarrow> trace \<Rightarrow> flow \<times> trace" where
  "sound_file_loop E base_path [] tr = (Exhausted, tr)"
| "sound_file_loop E base_path (sound_file # rest) tr =
     (let full_path = os_path_join base_path sound_file;
          (found, tr1) = probe E full_path tr
      in if found then
           (case play_file E full_path tr1 of
              (Exhausted, tr2) \<Rightarrow> sound_file_loop E base_path rest tr2
            | (fl, tr2) \<Rightarrow> (fl, tr2))
         else sound_file_loop E base_path rest tr1)"

text \<open>\<^verbatim>\<open>for base_path in sound_paths\<close>.\<close>

fun base_path_loop :: "env \<Rightarrow> string list \<Rightarrow> string list \<Rightarrow> trace \<Rightarrow> flow \<times> trace" where
  "base_path_loop E sounds [] tr = (Exhausted, tr)"
| "base_path_loop E sounds (base_path # rest) tr =
     (case sound_file_loop E base_path sounds tr of
        (Exhausted, tr1) \<Rightarrow> base_path_loop E sounds rest tr1
      | (fl, tr1) \<Rightarrow> (fl, tr1))"

definition beep_command :: "string list" where
  "beep_command = [''beep'', ''-f'', ''800'', ''-l'', ''100'']"

definition play_sound_linux :: "env \<Rightarrow> string \<Rightarrow> trace \<Rightarrow> (exn + unit) \<times> trace" where
  "play_sound_linux E sound_type tr =
     (case dict_getitem linux_sound_map ''prompt'' of
        Inl e \<Rightarrow> (Inl e, tr)
      | Inr dflt \<Rightarrow>
          (let sounds = dict_get linux_sound_map sound_type dflt
           in case base_path_loop E sounds sound_paths tr of
                (Returned, tr1) \<Rightarrow> (Inr (), tr1)
              | (Raised e, tr1) \<Rightarrow> (Inl e, tr1)
              | (Exhausted, tr1) \<Rightarrow>
                  (let (r, tr2) = run E beep_command tr1
                   in if r = Inl FileNotFoundError
                      then perform E (PrintFlush bell) tr2
                      else (r, tr2))))"

section \<open>Windows\<close>

text \<open>
  The inner \<^verbatim>\<open>try\<close> of the \<^verbatim>\<open>except ImportError\<close> handler: import again, \<^verbatim>\<open>MessageBeep\<close>, and a
  bare \<^verbatim>\<open>except\<close> that prints the bell. An exception of the \<^verbatim>\<open>print\<close> itself leaves the function.
\<close>

definition message_beep_fallback :: "env \<Rightarrow> trace \<Rightarrow> (exn + unit) \<times> trace" where
  "message_beep_fallback E tr =
     (let (r, tr1) = perform E ImportWinsound tr
      in case r of
           Inl e \<Rightarrow> perform E (PrintFlush bell) tr1
         | Inr u \<Rightarrow>
             (let (r2, tr2) = perform E MessageBeep tr1
              in case r2 of
                   Inl e2 \<Rightarrow> perform E (PrintFlush bell) tr2
                 | Inr u2 \<Rightarrow> (Inr (), tr2)))"

definition play_sound_windows :: "env \<Rightarrow> string \<Rightarrow> trace \<Rightarrow> (exn + unit) \<times> trace" where
  "play_sound_windows E sound_type tr =
     (let (r, tr1) = perform E ImportWinsound tr
      in case r of
           Inl e \<Rightarrow> if e = ImportError then message_beep_fallback E tr1 else (Inl e, tr1)
         | Inr u \<Rightarrow>
             (let (r2, tr2) =
                    (if sound_type = ''success'' then perform E (Beep 1000 100) tr1
                     else perform E (Beep 800 150) tr1)
              in case r2 of
                   Inl e2 \<Rightarrow> if e2 = ImportError then message_beep_fallback E tr2 else (Inl e2, tr2)
                 | Inr u2 \<Rightarrow> (Inr (), tr2)))"

section \<open>Dispatch\<close>

text \<open>
  \<open>system\<close> is the value of \<^verbatim>\<open>platform.system()\<close> and \<open>argv\<close> is \<^verbatim>\<open>sys.argv\<close>. The handler
  \<^verbatim>\<open>except Exception: pass\<close> turns every raised \<open>exn\<close> into a normal return.
\<close>

definition main :: "env \<Rightarrow> string \<Rightarrow> string list \<Rightarrow> trace \<Rightarrow> (exn + unit) \<times> trace" where
  "main E system argv tr =
     (let sound_type = (if length argv < 2 then ''prompt'' else argv ! 1);
          (r, tr1) =
            (if system = ''Darwin'' then play_sound_macos E sound_type tr
             else if system = ''Linux'' then play_sound_linux E sound_type tr
             else if system = ''Windows'' then play_sound_windows E sound_type tr
             else perform E (PrintFlush bell) tr)
      in case r of
           Inl e \<Rightarrow> (Inr (), tr1)
         | Inr u \<Rightarrow> (Inr (), tr1))"



section \<open>Notions used to state the properties\<close>

text \<open>The value of \<^verbatim>\<open>sounds\<close> in \<^verbatim>\<open>play_sound_linux\<close>, and the paths the two loops visit, in order.\<close>

definition linux_sounds :: "string \<Rightarrow> string list" where
  "linux_sounds sound_type =
     dict_get linux_sound_map sound_type
       [''dialog-warning.oga'', ''message-new-instant.oga'', ''bell.oga'']"

definition candidate_paths :: "string \<Rightarrow> string list" where
  "candidate_paths sound_type =
     concat (map (\<lambda>base_path. map (os_path_join base_path) (linux_sounds sound_type)) sound_paths)"

text \<open>The two nested loops as one loop over full paths (shown equal to them below).\<close>

fun path_loop :: "env \<Rightarrow> string list \<Rightarrow> trace \<Rightarrow> flow \<times> trace" where
  "path_loop E [] tr = (Exhausted, tr)"
| "path_loop E (p # ps) tr =
     (let (found, tr1) = probe E p tr
      in if found then
           (case play_file E p tr1 of
              (Exhausted, tr2) \<Rightarrow> path_loop E ps tr2
            | (fl, tr2) \<Rightarrow> (fl, tr2))
         else path_loop E ps tr1)"

text \<open>
  Hosts that answer the same whatever happened before: \<open>files\<close> are the paths that exist,
  \<open>spawn\<close> answers \<^verbatim>\<open>subprocess.run\<close> and \<open>lib\<close> the other calls.
\<close>

definition host :: "string list \<Rightarrow> (string list \<Rightarrow> exn + int) \<Rightarrow> (action \<Rightarrow> exn + unit) \<Rightarrow> env" where
  "host files spawn lib =
     \<lparr> path_exists = (\<lambda>tr p. p \<in> set files),
       subprocess_run = (\<lambda>tr args. spawn args),
       call = (\<lambda>tr a. lib a) \<rparr>"

text \<open>No player, no beep command, no \<^verbatim>\<open>winsound\<close>; printing works.\<close>

definition no_tools :: "string list \<Rightarrow> exn + int" where
  "no_tools args = Inl FileNotFoundError"

definition no_winsound :: "action \<Rightarrow> exn + unit" where
  "no_winsound a = (case a of PrintFlush s \<Rightarrow> Inr () | _ \<Rightarrow> Inl ImportError)"

text \<open>Every command runs and exits with status 1; every call returns.\<close>

definition all_tools :: "string list \<Rightarrow> exn + int" where
  "all_tools args = Inr 1"

definition all_calls :: "action \<Rightarrow> exn + unit" where
  "all_calls a = Inr ()"

text \<open>\<^verbatim>\<open>winsound\<close> imports, but every tone request raises \<^verbatim>\<open>RuntimeError\<close>.\<close>

definition beep_broken :: "action \<Rightarrow> exn + unit" where
  "beep_broken a = (case a of Beep f d \<Rightarrow> Inl (OtherException ''RuntimeError'') | _ \<Rightarrow> Inr ())"


section \<open>The lookup tables\<close>

lemma prompt_file:
  "dict_getitem macos_sound_map ''prompt'' = Inr ''/System/Library/Sounds/Blow.aiff''"
  by (simp add: dict_getitem_def macos_sound_map_def)

lemma prompt_sounds:
  "dict_getitem linux_sound_map ''prompt'' =
     Inr [''dialog-warning.oga'', ''message-new-instant.oga'', ''bell.oga'']"
  by (simp add: dict_getitem_def linux_sound_map_def)

lemma macos_other_is_prompt:
  "sound_type \<noteq> ''success'' \<Longrightarrow>
     dict_get macos_sound_map sound_type ''/System/Library/Sounds/Blow.aiff'' =
     dict_get macos_sound_map ''prompt'' ''/System/Library/Sounds/Blow.aiff''"
  by (simp add: dict_get_def macos_sound_map_def)

lemma linux_other_is_prompt:
  "sound_type \<noteq> ''success'' \<Longrightarrow> linux_sounds sound_type = linux_sounds ''prompt''"
  by (simp add: linux_sounds_def dict_get_def linux_sound_map_def)

section \<open>Dispatch: exceptions and exit status\<close>





text \<open>
  C7. On a platform that is none of Darwin, Linux and Windows, the only action of \<open>main\<close> is
  to print one bell character (flushed, no newline): no probe, no command, nothing else.
\<close>

theorem unknown_platform_bell:
  assumes "system \<noteq> ''Darwin''" and "system \<noteq> ''Linux''" and "system \<noteq> ''Windows''"
  shows "main E system argv tr = (Inr (), tr @ [PrintFlush [CHR 0x07]])"
  using assms by (simp add: main_def perform_def bell_def split: sum.splits)

theorem unknown_platform_bell_witness:
  "main (host [] no_tools no_winsound) ''FreeBSD'' [''play-sound.py'', ''success''] [] =
     (Inr (), [PrintFlush [CHR 0x07]])"
  using unknown_platform_bell [of "''FreeBSD''" "host [] no_tools no_winsound"
                                  "[''play-sound.py'', ''success'']" "[]"]
  by simp

section \<open>macOS\<close>

text \<open>
  C8. For \<open>success\<close> the macOS strategy first runs \<^verbatim>\<open>afplay\<close> on the Hero sound, and it runs the
  \<^verbatim>\<open>osascript\<close> beep afterwards exactly when \<^verbatim>\<open>afplay\<close> raised \<^verbatim>\<open>FileNotFoundError\<close>.
\<close>

theorem macos_success_hero_first:
  "snd (play_sound_macos E ''success'' tr) =
     tr @ [Run [''afplay'', ''/System/Library/Sounds/Hero.aiff'']]
        @ (if subprocess_run E tr [''afplay'', ''/System/Library/Sounds/Hero.aiff'']
                = Inl FileNotFoundError
           then [Run [''osascript'', ''-e'', ''beep 1'']] else [])"
  by (cases "subprocess_run E tr [''afplay'', ''/System/Library/Sounds/Hero.aiff'']")
     (simp_all add: play_sound_macos_def dict_getitem_def dict_get_def macos_sound_map_def
                    run_def Let_def)

theorem macos_success_hero_first_witness:
  "snd (play_sound_macos (host [] no_tools no_winsound) ''success'' []) =
     [Run [''afplay'', ''/System/Library/Sounds/Hero.aiff''], Run [''osascript'', ''-e'', ''beep 1'']]
   \<and> snd (play_sound_macos (host [] all_tools no_winsound) ''success'' []) =
     [Run [''afplay'', ''/System/Library/Sounds/Hero.aiff'']]"
  using macos_success_hero_first [of "host [] no_tools no_winsound" "[]"]
        macos_success_hero_first [of "host [] all_tools no_winsound" "[]"]
  by (simp add: host_def no_tools_def all_tools_def)

section \<open>Windows\<close>

lemma fallback_trace:
  "\<exists>rest. snd (message_beep_fallback E tr) = tr @ rest
          \<and> set rest \<subseteq> {ImportWinsound, MessageBeep, PrintFlush bell}"
  by (auto simp: message_beep_fallback_def perform_def split: sum.splits)

lemma windows_trace:
  assumes "call E tr ImportWinsound = Inr ()"
  shows "\<exists>rest. snd (play_sound_windows E sound_type tr) =
            tr @ [ImportWinsound,
                  if sound_type = ''success'' then Beep 1000 100 else Beep 800 150] @ rest
          \<and> (\<forall>f d. Beep f d \<notin> set rest)"
proof -
  let ?b = "if sound_type = ''success'' then Beep 1000 100 else Beep 800 150"
  let ?tr2 = "tr @ [ImportWinsound, ?b]"
  obtain rest where r: "snd (message_beep_fallback E ?tr2) = ?tr2 @ rest"
    "set rest \<subseteq> {ImportWinsound, MessageBeep, PrintFlush bell}"
    using fallback_trace by blast
  have nb: "\<forall>f d. Beep f d \<notin> set rest" using r(2) by auto
  show ?thesis
  proof (cases "call E (tr @ [ImportWinsound]) ?b = Inl ImportError")
    case True
    then have "snd (play_sound_windows E sound_type tr) = ?tr2 @ rest"
      using assms r(1) by (simp add: play_sound_windows_def perform_def split: if_splits)
    then show ?thesis using nb by auto
  next
    case False
    then have "snd (play_sound_windows E sound_type tr) = ?tr2 @ []"
      using assms by (simp add: play_sound_windows_def perform_def split: if_splits sum.splits)
    then show ?thesis by simp
  qed
qed

lemma main_windows_trace:
  "snd (main E ''Windows'' argv tr) =
     snd (play_sound_windows E (if length argv < 2 then ''prompt'' else argv ! 1) tr)"
  by (simp add: main_def Let_def split: prod.splits sum.splits)

text \<open>
  C5. When \<^verbatim>\<open>winsound\<close> imports, the Windows strategy requests exactly one tone: 1000 Hz for
  100 ms for \<open>success\<close>, 800 Hz for 150 ms for every other sound type; the default sound
  type of \<open>main\<close> (no argument) gets the 800 Hz tone.
\<close>

theorem windows_tone_parameters:
  assumes "call E tr ImportWinsound = Inr ()"
  shows "(\<exists>rest. snd (play_sound_windows E sound_type tr) =
             tr @ [ImportWinsound,
                   if sound_type = ''success'' then Beep 1000 100 else Beep 800 150] @ rest
           \<and> (\<forall>f d. Beep f d \<notin> set rest))
       \<and> (\<exists>rest. snd (main E ''Windows'' [prog] tr) = tr @ [ImportWinsound, Beep 800 150] @ rest
           \<and> (\<forall>f d. Beep f d \<notin> set rest))"
  using windows_trace [OF assms, of sound_type] windows_trace [OF assms, of "''prompt''"]
  by (simp add: main_windows_trace)

theorem windows_tone_parameters_witness:
  "snd (play_sound_windows (host [] no_tools all_calls) ''success'' []) =
     [ImportWinsound, Beep 1000 100]
   \<and> snd (play_sound_windows (host [] no_tools all_calls) ''prompt'' []) =
     [ImportWinsound, Beep 800 150]
   \<and> snd (main (host [] no_tools all_calls) ''Windows'' [''play-sound.py''] []) =
     [ImportWinsound, Beep 800 150]"
proof -
  have i: "call (host [] no_tools all_calls) [] ImportWinsound = Inr ()"
    by (simp add: host_def all_calls_def)
  have "snd (play_sound_windows (host [] no_tools all_calls) ''success'' []) =
          [ImportWinsound, Beep 1000 100]"
       "snd (play_sound_windows (host [] no_tools all_calls) ''prompt'' []) =
          [ImportWinsound, Beep 800 150]"
       "snd (main (host [] no_tools all_calls) ''Windows'' [''play-sound.py''] []) =
          [ImportWinsound, Beep 800 150]"
    by (simp_all add: main_def play_sound_windows_def perform_def host_def all_calls_def)
  then show ?thesis
    using windows_tone_parameters [OF i, of "''success''" "''play-sound.py''"] by simp
qed

text \<open>
  C3. The comment of the handler says \<^verbatim>\<open># Fallback to system default beep\<close>, and the handler
  asks for \<^verbatim>\<open>MessageBeep\<close> only after importing \<^verbatim>\<open>winsound\<close> a second time. Where that second
  import raises too, as it does on every host without the module, \<^verbatim>\<open>MessageBeep\<close> is never
  requested: after the two imports the strategy prints the bell, and that is all it does.
\<close>

theorem windows_message_beep_unreachable:
  assumes "call E tr ImportWinsound = Inl ImportError"
      and "call E (tr @ [ImportWinsound]) ImportWinsound = Inl e"
  shows "play_sound_windows E sound_type tr =
           (call E (tr @ [ImportWinsound, ImportWinsound]) (PrintFlush [CHR 0x07]),
            tr @ [ImportWinsound, ImportWinsound, PrintFlush [CHR 0x07]])
         \<and> MessageBeep \<notin> set (drop (length tr) (snd (play_sound_windows E sound_type tr)))"
  using assms
  by (simp add: play_sound_windows_def message_beep_fallback_def perform_def bell_def)

theorem windows_message_beep_unreachable_witness:
  "play_sound_windows (host [] no_tools no_winsound) ''success'' [] =
     (Inr (), [ImportWinsound, ImportWinsound, PrintFlush [CHR 0x07]])
   \<and> MessageBeep \<notin> set (snd (play_sound_windows (host [] no_tools no_winsound) ''success'' []))"
proof -
  have a: "call (host [] no_tools no_winsound) [] ImportWinsound = Inl ImportError"
    by (simp add: host_def no_winsound_def)
  have b: "call (host [] no_tools no_winsound) ([] @ [ImportWinsound]) ImportWinsound
             = Inl ImportError"
    by (simp add: host_def no_winsound_def)
  show ?thesis
    using windows_message_beep_unreachable [OF a b, of "''success''"]
    by (simp add: host_def no_winsound_def)
qed

text \<open>
  C9. An exception other than \<^verbatim>\<open>ImportError\<close> does not start the fallback of the Windows
  strategy: raised by the import or by \<^verbatim>\<open>winsound.Beep\<close>, it leaves \<open>play_sound_windows\<close>,
  \<open>main\<close> drops it, and neither \<^verbatim>\<open>MessageBeep\<close> nor the bell is attempted.
\<close>

theorem windows_other_errors_escape:
  assumes "e \<noteq> ImportError"
  shows "(call E tr ImportWinsound = Inl e \<longrightarrow>
            play_sound_windows E sound_type tr = (Inl e, tr @ [ImportWinsound])
          \<and> main E ''Windows'' [prog, sound_type] tr = (Inr (), tr @ [ImportWinsound]))
       \<and> (call E tr ImportWinsound = Inr ()
          \<and> call E (tr @ [ImportWinsound])
                (if sound_type = ''success'' then Beep 1000 100 else Beep 800 150) = Inl e \<longrightarrow>
            play_sound_windows E sound_type tr =
              (Inl e, tr @ [ImportWinsound,
                            if sound_type = ''success'' then Beep 1000 100 else Beep 800 150])
          \<and> main E ''Windows'' [prog, sound_type] tr =
              (Inr (), tr @ [ImportWinsound,
                             if sound_type = ''success'' then Beep 1000 100 else Beep 800 150]))"
  using assms
  by (auto simp: main_def play_sound_windows_def perform_def split: if_splits)

theorem windows_other_errors_escape_witness:
  "play_sound_windows (host [] no_tools beep_broken) ''success'' [] =
     (Inl (OtherException ''RuntimeError''), [ImportWinsound, Beep 1000 100])
   \<and> main (host [] no_tools beep_broken) ''Windows'' [''play-sound.py'', ''success''] [] =
     (Inr (), [ImportWinsound, Beep 1000 100])"
proof -
  have ne: "OtherException ''RuntimeError'' \<noteq> ImportError" by simp
  show ?thesis
    using windows_other_errors_escape [OF ne, of "host [] no_tools beep_broken" "[]"
                                          "''success''" "''play-sound.py''"]
    by (simp add: host_def beep_broken_def)
qed

section \<open>Linux\<close>

text \<open>The nested loops visit the candidate paths in order, as the single loop does.\<close>

lemma sound_file_loop_path_loop:
  "sound_file_loop E b fs tr = path_loop E (map (os_path_join b) fs) tr"
  by (induction fs arbitrary: tr) (simp_all add: Let_def split: prod.splits flow.splits)

lemma path_loop_append:
  "path_loop E (xs @ ys) tr =
     (case path_loop E xs tr of (Exhausted, tr1) \<Rightarrow> path_loop E ys tr1 | (fl, tr1) \<Rightarrow> (fl, tr1))"
  by (induction xs arbitrary: tr) (simp_all add: Let_def split: prod.splits flow.splits)

lemma base_path_loop_path_loop:
  "base_path_loop E sounds bs tr =
     path_loop E (concat (map (\<lambda>b. map (os_path_join b) sounds) bs)) tr"
  by (induction bs arbitrary: tr)
     (simp_all add: path_loop_append sound_file_loop_path_loop split: prod.splits flow.splits)

lemma play_sound_linux_path_loop:
  "play_sound_linux E sound_type tr =
     (case path_loop E (candidate_paths sound_type) tr of
        (Returned, tr1) \<Rightarrow> (Inr (), tr1)
      | (Raised e, tr1) \<Rightarrow> (Inl e, tr1)
      | (Exhausted, tr1) \<Rightarrow>
          (let (r, tr2) = run E beep_command tr1
           in if r = Inl FileNotFoundError
              then perform E (PrintFlush bell) tr2
              else (r, tr2)))"
  by (simp add: play_sound_linux_def prompt_sounds base_path_loop_path_loop candidate_paths_def
        linux_sounds_def)

lemma path_loop_none_exist:
  "\<forall>h. \<forall>p \<in> set ps. \<not> path_exists E h p \<Longrightarrow> path_loop E ps tr = (Exhausted, tr @ map Exists ps)"
  by (induction ps arbitrary: tr) (simp_all add: probe_def)

lemma length_candidate_paths: "length (candidate_paths sound_type) = 9"
  by (simp add: candidate_paths_def linux_sounds_def dict_get_def linux_sound_map_def sound_paths_def)

lemma candidate_paths_success:
  "candidate_paths ''success'' =
    [''/usr/share/sounds/freedesktop/stereo/complete.oga'',
     ''/usr/share/sounds/freedesktop/stereo/message.oga'',
     ''/usr/share/sounds/freedesktop/stereo/glass.oga'',
     ''/usr/share/sounds/ubuntu/stereo/complete.oga'',
     ''/usr/share/sounds/ubuntu/stereo/message.oga'',
     ''/usr/share/sounds/ubuntu/stereo/glass.oga'',
     ''/usr/share/sounds/gnome/default/alerts/complete.oga'',
     ''/usr/share/sounds/gnome/default/alerts/message.oga'',
     ''/usr/share/sounds/gnome/default/alerts/glass.oga'']"
  by (simp add: candidate_paths_def linux_sounds_def dict_get_def linux_sound_map_def
        sound_paths_def os_path_join_def)

lemma candidate_paths_other:
  "sound_type \<noteq> ''success'' \<Longrightarrow> candidate_paths sound_type =
    [''/usr/share/sounds/freedesktop/stereo/dialog-warning.oga'',
     ''/usr/share/sounds/freedesktop/stereo/message-new-instant.oga'',
     ''/usr/share/sounds/freedesktop/stereo/bell.oga'',
     ''/usr/share/sounds/ubuntu/stereo/dialog-warning.oga'',
     ''/usr/share/sounds/ubuntu/stereo/message-new-instant.oga'',
     ''/usr/share/sounds/ubuntu/stereo/bell.oga'',
     ''/usr/share/sounds/gnome/default/alerts/dialog-warning.oga'',
     ''/usr/share/sounds/gnome/default/alerts/message-new-instant.oga'',
     ''/usr/share/sounds/gnome/default/alerts/bell.oga'']"
  by (simp add: candidate_paths_def linux_sounds_def dict_get_def linux_sound_map_def
        sound_paths_def os_path_join_def)

lemma play_file_extends: "\<exists>rest. snd (play_file E p tr) = tr @ rest"
  by (auto simp: play_file_def run_def split: sum.splits)

lemma path_loop_extends: "\<exists>rest. snd (path_loop E ps tr) = tr @ rest"
proof (induction ps arbitrary: tr)
  case Nil
  then show ?case by simp
next
  case (Cons p ps)
  obtain fl tr2 where pf: "play_file E p (tr @ [Exists p]) = (fl, tr2)"
    by (cases "play_file E p (tr @ [Exists p])")
  obtain r1 where r1: "tr2 = (tr @ [Exists p]) @ r1"
    using play_file_extends [of E p "tr @ [Exists p]"] pf by auto
  obtain r2 where r2: "snd (path_loop E ps tr2) = tr2 @ r2" using Cons.IH by blast
  obtain r3 where r3: "snd (path_loop E ps (tr @ [Exists p])) = (tr @ [Exists p]) @ r3"
    using Cons.IH by blast
  show ?case
    using pf r1 r2 r3 by (cases fl) (auto simp: probe_def)
qed

lemma path_loop_probes_head: "\<exists>rest. snd (path_loop E (q # ps) tr) = tr @ Exists q # rest"
proof -
  obtain fl tr2 where pf: "play_file E q (tr @ [Exists q]) = (fl, tr2)"
    by (cases "play_file E q (tr @ [Exists q])")
  obtain r1 where r1: "tr2 = (tr @ [Exists q]) @ r1"
    using play_file_extends [of E q "tr @ [Exists q]"] pf by auto
  obtain r2 where r2: "snd (path_loop E ps tr2) = tr2 @ r2" using path_loop_extends by blast
  obtain r3 where r3: "snd (path_loop E ps (tr @ [Exists q])) = (tr @ [Exists q]) @ r3"
    using path_loop_extends by blast
  show ?thesis
    using pf r1 r2 r3 by (cases fl) (auto simp: probe_def)
qed

lemma linux_extends_loop:
  "\<exists>rest. snd (play_sound_linux E sound_type tr) = snd (path_loop E (candidate_paths sound_type) tr) @ rest"
  by (auto simp: play_sound_linux_path_loop run_def perform_def split: prod.splits flow.splits sum.splits)

lemma linux_exhausted_beep:
  "path_loop E (candidate_paths sound_type) tr = (Exhausted, tr1) \<Longrightarrow>
     \<exists>rest. snd (play_sound_linux E sound_type tr) = tr1 @ Run beep_command # rest"
  by (auto simp: play_sound_linux_path_loop run_def perform_def split: sum.splits)

lemma path_loop_first_existing:
  assumes "\<forall>h. \<forall>q \<in> set pre. \<not> path_exists E h q"
      and "path_exists E (tr @ map Exists pre) p"
  shows "path_loop E (pre @ p # post) tr =
     (case play_file E p (tr @ map Exists pre @ [Exists p]) of
        (Exhausted, tr2) \<Rightarrow> path_loop E post tr2
      | (fl, tr2) \<Rightarrow> (fl, tr2))"
  using assms(2)
  by (simp add: path_loop_append path_loop_none_exist [OF assms(1)] probe_def)

text \<open>
  C6. When no candidate path of the sound type exists, the Linux strategy probes them all and
  then runs the \<^verbatim>\<open>beep\<close> command; if that raises \<^verbatim>\<open>FileNotFoundError\<close> it prints exactly one
  bell character (flushed, no newline), and nothing after it.
\<close>

theorem linux_no_file_beep_then_bell:
  assumes "\<forall>h. \<forall>p \<in> set (candidate_paths sound_type). \<not> path_exists E h p"
  shows "play_sound_linux E sound_type tr =
     (let tr1 = tr @ map Exists (candidate_paths sound_type);
          tr2 = tr1 @ [Run [''beep'', ''-f'', ''800'', ''-l'', ''100'']]
      in case subprocess_run E tr1 [''beep'', ''-f'', ''800'', ''-l'', ''100''] of
           Inr rc \<Rightarrow> (Inr (), tr2)
         | Inl e \<Rightarrow>
             if e = FileNotFoundError
             then (call E tr2 (PrintFlush [CHR 0x07]), tr2 @ [PrintFlush [CHR 0x07]])
             else (Inl e, tr2))"
  by (simp add: play_sound_linux_path_loop path_loop_none_exist [OF assms] run_def perform_def
        beep_command_def bell_def Let_def split: sum.splits)

theorem linux_no_file_beep_then_bell_witness:
  "play_sound_linux (host [] no_tools all_calls) ''success'' [] =
     (Inr (), map Exists (candidate_paths ''success'')
              @ [Run [''beep'', ''-f'', ''800'', ''-l'', ''100''], PrintFlush [CHR 0x07]])
   \<and> play_sound_linux (host [] all_tools all_calls) ''success'' [] =
     (Inr (), map Exists (candidate_paths ''success'')
              @ [Run [''beep'', ''-f'', ''800'', ''-l'', ''100'']])"
proof -
  have a: "\<forall>h. \<forall>p \<in> set (candidate_paths ''success''). \<not> path_exists (host [] no_tools all_calls) h p"
    by (simp add: host_def)
  have b: "\<forall>h. \<forall>p \<in> set (candidate_paths ''success''). \<not> path_exists (host [] all_tools all_calls) h p"
    by (simp add: host_def)
  show ?thesis
    using linux_no_file_beep_then_bell [OF a, of "[]"] linux_no_file_beep_then_bell [OF b, of "[]"]
    by (simp add: host_def no_tools_def all_tools_def all_calls_def)
qed

text \<open>
  C10. When no candidate path exists, what follows the probes is the command
  \<^verbatim>\<open>beep -f 800 -l 100\<close>, alone or followed by the bell character: the same two
  possibilities for every sound type, so the fallbacks do not tell \<open>success\<close> from \<open>prompt\<close>.
\<close>

theorem linux_fallback_fixed_tone:
  assumes "\<forall>h. \<forall>p \<in> set (candidate_paths sound_type). \<not> path_exists E h p"
  shows "drop (length tr + length (candidate_paths sound_type)) (snd (play_sound_linux E sound_type tr))
           \<in> {[Run [''beep'', ''-f'', ''800'', ''-l'', ''100'']],
              [Run [''beep'', ''-f'', ''800'', ''-l'', ''100''], PrintFlush [CHR 0x07]]}"
  by (simp add: play_sound_linux_path_loop path_loop_none_exist [OF assms] run_def perform_def
        beep_command_def bell_def Let_def length_candidate_paths split: sum.splits)

theorem linux_fallback_fixed_tone_witness:
  "drop 9 (snd (play_sound_linux (host [] no_tools all_calls) ''success'' [])) =
     [Run [''beep'', ''-f'', ''800'', ''-l'', ''100''], PrintFlush [CHR 0x07]]
   \<and> drop 9 (snd (play_sound_linux (host [] no_tools all_calls) ''prompt'' [])) =
     [Run [''beep'', ''-f'', ''800'', ''-l'', ''100''], PrintFlush [CHR 0x07]]"
proof -
  have a: "\<forall>h. \<forall>p \<in> set (candidate_paths t). \<not> path_exists (host [] no_tools all_calls) h p" for t
    by (simp add: host_def)
  have "play_sound_linux (host [] no_tools all_calls) t [] =
          (Inr (), map Exists (candidate_paths t)
                   @ [Run [''beep'', ''-f'', ''800'', ''-l'', ''100''], PrintFlush [CHR 0x07]])" for t
    unfolding play_sound_linux_path_loop path_loop_none_exist [OF a]
    by (simp add: run_def perform_def beep_command_def bell_def host_def no_tools_def all_calls_def)
  then have "drop 9 (snd (play_sound_linux (host [] no_tools all_calls) t [])) =
          [Run [''beep'', ''-f'', ''800'', ''-l'', ''100''], PrintFlush [CHR 0x07]]" for t
    by (simp add: length_candidate_paths)
  then show ?thesis
    using linux_fallback_fixed_tone [OF a [of "''success''"], of "[]"]
          linux_fallback_fixed_tone [OF a [of "''prompt''"], of "[]"]
    by simp
qed

text \<open>
  The claim C2, that the Linux strategy returns at the first existing file whether or not a
  player could be started, fails. On a host where only the first candidate exists and neither
  \<^verbatim>\<open>paplay\<close> nor \<^verbatim>\<open>aplay\<close> is installed, the handler \<^verbatim>\<open>except FileNotFoundError: pass\<close> lets the
  loops go on: the eight later candidates are probed, and the beep and bell fallbacks run.
\<close>

theorem linux_returns_regardless_of_player_counterexample:
  "path_exists (host [''/usr/share/sounds/freedesktop/stereo/complete.oga''] no_tools all_calls) []
     ''/usr/share/sounds/freedesktop/stereo/complete.oga''
   \<and> play_sound_linux (host [''/usr/share/sounds/freedesktop/stereo/complete.oga''] no_tools all_calls)
       ''success'' [] =
     (Inr (),
      [Exists ''/usr/share/sounds/freedesktop/stereo/complete.oga'',
       Run [''paplay'', ''/usr/share/sounds/freedesktop/stereo/complete.oga''],
       Run [''aplay'', ''-q'', ''/usr/share/sounds/freedesktop/stereo/complete.oga''],
       Exists ''/usr/share/sounds/freedesktop/stereo/message.oga'',
       Exists ''/usr/share/sounds/freedesktop/stereo/glass.oga'',
       Exists ''/usr/share/sounds/ubuntu/stereo/complete.oga'',
       Exists ''/usr/share/sounds/ubuntu/stereo/message.oga'',
       Exists ''/usr/share/sounds/ubuntu/stereo/glass.oga'',
       Exists ''/usr/share/sounds/gnome/default/alerts/complete.oga'',
       Exists ''/usr/share/sounds/gnome/default/alerts/message.oga'',
       Exists ''/usr/share/sounds/gnome/default/alerts/glass.oga'',
       Run [''beep'', ''-f'', ''800'', ''-l'', ''100''],
       PrintFlush [CHR 0x07]])"
  by (simp add: play_sound_linux_def dict_getitem_def dict_get_def linux_sound_map_def
        sound_paths_def os_path_join_def probe_def play_file_def run_def perform_def
        beep_command_def bell_def host_def no_tools_def all_calls_def Let_def)

text \<open>
  C2, amended. Let \<open>p\<close> be the first candidate path that exists. The Linux strategy runs
  \<^verbatim>\<open>paplay\<close> on \<open>p\<close> and, if \<^verbatim>\<open>paplay\<close> is missing, \<^verbatim>\<open>aplay\<close>. As soon as one of the two could be
  started it returns, whatever the exit status \<open>rc\<close> of the player, and no later candidate
  is probed. If both executables are missing, the search goes on: the next action is the
  probe of the next candidate, or the \<^verbatim>\<open>beep\<close> command when \<open>p\<close> was the last one.
\<close>

theorem linux_returns_once_a_player_starts:
  assumes "candidate_paths sound_type = pre @ p # post"
      and "\<forall>h. \<forall>q \<in> set pre. \<not> path_exists E h q"
      and "path_exists E (tr @ map Exists pre) p"
      and "tr1 = tr @ map Exists pre @ [Exists p]"
  shows "(subprocess_run E tr1 [''paplay'', p] = Inr rc \<longrightarrow>
            play_sound_linux E sound_type tr = (Inr (), tr1 @ [Run [''paplay'', p]]))
       \<and> (subprocess_run E tr1 [''paplay'', p] = Inl FileNotFoundError
          \<and> subprocess_run E (tr1 @ [Run [''paplay'', p]]) [''aplay'', ''-q'', p] = Inr rc \<longrightarrow>
            play_sound_linux E sound_type tr =
              (Inr (), tr1 @ [Run [''paplay'', p], Run [''aplay'', ''-q'', p]]))
       \<and> (subprocess_run E tr1 [''paplay'', p] = Inl FileNotFoundError
          \<and> subprocess_run E (tr1 @ [Run [''paplay'', p]]) [''aplay'', ''-q'', p]
              = Inl FileNotFoundError \<longrightarrow>
            (\<exists>rest. snd (play_sound_linux E sound_type tr) =
               tr1 @ [Run [''paplay'', p], Run [''aplay'', ''-q'', p],
                      case post of [] \<Rightarrow> Run [''beep'', ''-f'', ''800'', ''-l'', ''100'']
                                 | q # qs \<Rightarrow> Exists q] @ rest))"
proof -
  note loop = path_loop_first_existing [OF assms(2,3), of post, folded assms(1), folded assms(4)]
  have 1: "subprocess_run E tr1 [''paplay'', p] = Inr rc \<Longrightarrow>
            play_sound_linux E sound_type tr = (Inr (), tr1 @ [Run [''paplay'', p]])"
    by (simp add: play_sound_linux_path_loop loop play_file_def run_def)
  have 2: "subprocess_run E tr1 [''paplay'', p] = Inl FileNotFoundError
          \<Longrightarrow> subprocess_run E (tr1 @ [Run [''paplay'', p]]) [''aplay'', ''-q'', p] = Inr rc \<Longrightarrow>
            play_sound_linux E sound_type tr =
              (Inr (), tr1 @ [Run [''paplay'', p], Run [''aplay'', ''-q'', p]])"
    by (simp add: play_sound_linux_path_loop loop play_file_def run_def)
  have 3: "\<exists>rest. snd (play_sound_linux E sound_type tr) =
               tr1 @ [Run [''paplay'', p], Run [''aplay'', ''-q'', p],
                      case post of [] \<Rightarrow> Run [''beep'', ''-f'', ''800'', ''-l'', ''100'']
                                 | q # qs \<Rightarrow> Exists q] @ rest"
    if a: "subprocess_run E tr1 [''paplay'', p] = Inl FileNotFoundError"
      and b: "subprocess_run E (tr1 @ [Run [''paplay'', p]]) [''aplay'', ''-q'', p] = Inl FileNotFoundError"
  proof -
    let ?tr2 = "tr1 @ [Run [''paplay'', p], Run [''aplay'', ''-q'', p]]"
    have pl: "path_loop E (candidate_paths sound_type) tr = path_loop E post ?tr2"
      using a b by (simp add: loop play_file_def run_def)
    show ?thesis
    proof (cases post)
      case Nil
      then have "path_loop E (candidate_paths sound_type) tr = (Exhausted, ?tr2)"
        using pl by simp
      from linux_exhausted_beep [OF this] show ?thesis
        using Nil by (auto simp: beep_command_def)
    next
      case (Cons q qs)
      obtain r1 where r1: "snd (path_loop E (q # qs) ?tr2) = ?tr2 @ Exists q # r1"
        using path_loop_probes_head by blast
      obtain r2 where r2: "snd (play_sound_linux E sound_type tr) =
          snd (path_loop E (candidate_paths sound_type) tr) @ r2"
        using linux_extends_loop by blast
      show ?thesis using r1 r2 pl Cons by simp
    qed
  qed
  from 1 2 3 show ?thesis by blast
qed

theorem linux_returns_once_a_player_starts_witness:
  "play_sound_linux (host [''/usr/share/sounds/ubuntu/stereo/message.oga''] all_tools all_calls)
       ''success'' [] =
     (Inr (),
      [Exists ''/usr/share/sounds/freedesktop/stereo/complete.oga'',
       Exists ''/usr/share/sounds/freedesktop/stereo/message.oga'',
       Exists ''/usr/share/sounds/freedesktop/stereo/glass.oga'',
       Exists ''/usr/share/sounds/ubuntu/stereo/complete.oga'',
       Exists ''/usr/share/sounds/ubuntu/stereo/message.oga'',
       Run [''paplay'', ''/usr/share/sounds/ubuntu/stereo/message.oga'']])"
proof -
  let ?E = "host [''/usr/share/sounds/ubuntu/stereo/message.oga''] all_tools all_calls"
  let ?pre = "[''/usr/share/sounds/freedesktop/stereo/complete.oga'',
               ''/usr/share/sounds/freedesktop/stereo/message.oga'',
               ''/usr/share/sounds/freedesktop/stereo/glass.oga'',
               ''/usr/share/sounds/ubuntu/stereo/complete.oga'']"
  let ?p = "''/usr/share/sounds/ubuntu/stereo/message.oga''"
  let ?post = "[''/usr/share/sounds/ubuntu/stereo/glass.oga'',
                ''/usr/share/sounds/gnome/default/alerts/complete.oga'',
                ''/usr/share/sounds/gnome/default/alerts/message.oga'',
                ''/usr/share/sounds/gnome/default/alerts/glass.oga'']"
  have c: "candidate_paths ''success'' = ?pre @ ?p # ?post"
    by (simp add: candidate_paths_success)
  have n: "\<forall>h. \<forall>q \<in> set ?pre. \<not> path_exists ?E h q"
    by (simp add: host_def)
  have e: "path_exists ?E ([] @ map Exists ?pre) ?p"
    by (simp add: host_def)
  have r: "subprocess_run ?E ([] @ map Exists ?pre @ [Exists ?p]) [''paplay'', ?p] = Inr 1"
    by (simp add: host_def all_tools_def)
  show ?thesis
    using linux_returns_once_a_player_starts [OF c n e refl, of 1] r by simp
qed

section \<open>Sound types\<close>

text \<open>
  C4. On each of the three strategies, and through \<open>main\<close>, a sound type other than
  \<open>success\<close> gives the same result and the same trace as \<open>prompt\<close>.
\<close>

theorem other_sound_type_is_prompt:
  assumes "sound_type \<noteq> ''success''"
  shows "play_sound_macos E sound_type tr = play_sound_macos E ''prompt'' tr
       \<and> play_sound_linux E sound_type tr = play_sound_linux E ''prompt'' tr
       \<and> play_sound_windows E sound_type tr = play_sound_windows E ''prompt'' tr
       \<and> main E system [prog, sound_type] tr = main E system [prog, ''prompt''] tr"
proof -
  have m: "play_sound_macos E sound_type tr = play_sound_macos E ''prompt'' tr"
    by (simp add: play_sound_macos_def prompt_file macos_other_is_prompt [OF assms])
  have l: "play_sound_linux E sound_type tr = play_sound_linux E ''prompt'' tr"
    by (simp add: play_sound_linux_def prompt_sounds
          linux_other_is_prompt [OF assms, unfolded linux_sounds_def])
  have w: "play_sound_windows E sound_type tr = play_sound_windows E ''prompt'' tr"
    using assms by (simp add: play_sound_windows_def perform_def split: sum.splits)
  have "main E system [prog, sound_type] tr = main E system [prog, ''prompt''] tr"
    by (simp add: main_def m l w)
  with m l w show ?thesis by simp
qed

theorem other_sound_type_is_prompt_witness:
  "play_sound_macos (host [] all_tools all_calls) ''unknown-garbage'' [] =
     (Inr (), [Run [''afplay'', ''/System/Library/Sounds/Blow.aiff'']])
   \<and> play_sound_macos (host [] all_tools all_calls) ''unknown-garbage'' [] =
       play_sound_macos (host [] all_tools all_calls) ''prompt'' []
   \<and> play_sound_linux (host [] all_tools all_calls) ''unknown-garbage'' [] =
       play_sound_linux (host [] all_tools all_calls) ''prompt'' []
   \<and> play_sound_windows (host [] all_tools all_calls) ''unknown-garbage'' [] =
       play_sound_windows (host [] all_tools all_calls) ''prompt'' []"
proof -
  have ne: "''unknown-garbage'' \<noteq> ''success''" by simp
  have "play_sound_macos (host [] all_tools all_calls) ''prompt'' [] =
     (Inr (), [Run [''afplay'', ''/System/Library/Sounds/Blow.aiff'']])"
    by (simp add: play_sound_macos_def dict_getitem_def dict_get_def macos_sound_map_def run_def
        host_def all_tools_def)
  then show ?thesis
    using other_sound_type_is_prompt [OF ne, of "host [] all_tools all_calls" "[]"] by simp
qed

end
